theory Spec2Isabelle
  imports Main
begin

section \<open>Semantic highlighting service (monaco-semantic-highlighting-service.ts)\<close>

subsection \<open>Data model\<close>

text \<open>
  Positions and ranges are those of the language-server protocol: zero-based line and
  character numbers (JavaScript numbers in the source, natural numbers here). A semantic
  highlighting range is a range that also carries its scope names.
\<close>

record Position =
  line :: nat
  character :: nat

record Range =
  start :: Position
  end' :: Position

record SemanticHighlightingRange = Range +
  scopes :: "string list"

text \<open>\<open>EditorDecorationOptions\<close>: only \<open>inlineClassName\<close> is ever set by this service;
  the empty object literal is the record with no class name.\<close>

record EditorDecorationOptions =
  inlineClassName :: "string option"

record EditorDecoration =
  range' :: Range
  options :: EditorDecorationOptions

text \<open>The argument object of \<open>deltaDecorations\<close>, with the two properties the service passes.\<close>

record DeltaDecorationParams =
  newDecorations :: "EditorDecoration list"
  oldDecorations :: "string list"

text \<open>\<open>DecorationWithRanges\<close>: the identifiers of the applied decorations (property
  \<open>decorations\<close> in the source) and the raw highlighting ranges.\<close>

record DecorationWithRanges =
  decorationIds :: "string list"
  ranges :: "SemanticHighlightingRange list"

definition EMPTY :: DecorationWithRanges where
  "EMPTY = \<lparr>decorationIds = [], ranges = []\<rparr>"

datatype URI = URI string

fun toString :: "URI \<Rightarrow> string" where
  "toString (URI s) = s"

text \<open>
  Editors are objects with identity and mutable state: an editor is a reference into a
  heap of editor states. \<open>instanceof MonacoEditor\<close> is the constructor test.
\<close>

type_synonym editor_ref = nat

datatype TextEditor = MonacoEditor editor_ref | OtherTextEditor editor_ref

record EditorWidget =
  editor :: TextEditor

text \<open>
  What \<open>toDisposeOnEditorClose\<close> stores: the collection of the registration of the
  editor's dispose listener (the closure calling \<open>deleteDecorations(key, editor)\<close>) and of
  the disposable that deletes the key from the map. Each closure is represented by the
  values it captures.
\<close>

datatype Disposable =
    OnDisposeListener string editor_ref
  | DeleteFromToDispose string
  | DisposableCollection "Disposable list"

text \<open>
  The service's two maps, and the editors it talks to: the heap of their states, and for
  each editor the dispose listeners that the service has registered with it, in the order
  of registration. A listener is the closure \<open>() => this.deleteDecorations(key, editor)\<close>,
  represented by the key and the editor it captures.
\<close>

record 'e service =
  toDisposeOnEditorClose :: "string \<rightharpoonup> Disposable"
  decorations :: "string \<rightharpoonup> DecorationWithRanges"
  editors :: "editor_ref \<Rightarrow> 'e"
  disposeListeners :: "editor_ref \<Rightarrow> (string \<times> editor_ref) list"

text \<open>
  The collaborators that are interfaces or third-party code: the editor manager's lookup,
  the editor's \<open>deltaDecorations\<close> (returns the identifiers of the applied decorations
  and changes the editor), the editor's \<open>onDispose\<close> registration (changes the editor),
  and the theme's class name of a scope
  (\<open>TokenMetadata.getClassNameFromMetadata(tokenTheme()._match(scope).metadata)\<close>).
\<close>

record 'e env =
  getByUri :: "URI \<Rightarrow> EditorWidget option"
  deltaDecorations :: "DeltaDecorationParams \<Rightarrow> 'e \<Rightarrow> string list \<times> 'e"
  onDispose :: "string \<Rightarrow> 'e \<Rightarrow> 'e"
  classNameOfScope :: "string \<Rightarrow> string"

subsection \<open>Operations\<close>

text \<open>\<open>toOptions\<close>: the loop returns in its first iteration, so only the first scope counts.\<close>

definition toOptions :: "'e env \<Rightarrow> string list \<Rightarrow> EditorDecorationOptions" where
  "toOptions env scs =
     (case scs of
        [] \<Rightarrow> \<lparr>inlineClassName = None\<rparr>
      | scope # _ \<Rightarrow> \<lparr>inlineClassName = Some (classNameOfScope env scope)\<rparr>)"

definition toDecoration :: "'e env \<Rightarrow> SemanticHighlightingRange \<Rightarrow> EditorDecoration" where
  "toDecoration env r =
     (let start_pos = \<lparr>line = line (start r), character = character (start r) + 2\<rparr>;
          end_pos = \<lparr>line = line (end' r), character = character (end' r) + 2\<rparr>
      in \<lparr>range' = \<lparr>start = start_pos, end' = end_pos\<rparr>, options = toOptions env (scopes r)\<rparr>)"

text \<open>The local \<open>rangesToCache\<close> of \<open>decorate\<close>: the old ranges that are not on an affected
  line, followed by the new ranges.\<close>

definition rangesToCache ::
  "DecorationWithRanges \<Rightarrow> SemanticHighlightingRange list \<Rightarrow> SemanticHighlightingRange list" where
  "rangesToCache oldState rs =
     (let affectedLines = set (map (\<lambda>r. line (start r)) rs)
      in filter (\<lambda>r. line (start r) \<notin> affectedLines) (ranges oldState) @ rs)"

definition decorate ::
  "'e env \<Rightarrow> URI \<Rightarrow> SemanticHighlightingRange list \<Rightarrow> 'e service \<Rightarrow> 'e service" where
  "decorate env uri rs s =
     (case getByUri env uri of
        None \<Rightarrow> s
      | Some editorWidget \<Rightarrow>
          (case editor editorWidget of
             OtherTextEditor _ \<Rightarrow> s
           | MonacoEditor ed \<Rightarrow>
               let key = toString uri;
                   s1 = (if toDisposeOnEditorClose s key \<noteq> None then s
                         else s\<lparr>toDisposeOnEditorClose := (toDisposeOnEditorClose s)
                                   (key \<mapsto> DisposableCollection
                                      [OnDisposeListener key ed, DeleteFromToDispose key]),
                                 editors := (editors s)(ed := onDispose env key (editors s ed)),
                                 disposeListeners := (disposeListeners s)
                                   (ed := disposeListeners s ed @ [(key, ed)])\<rparr>);
                   oldState = (case decorations s1 key of Some st \<Rightarrow> st | None \<Rightarrow> EMPTY);
                   toCache = rangesToCache oldState rs;
                   params = \<lparr>newDecorations = map (toDecoration env) toCache,
                             oldDecorations = decorationIds oldState\<rparr>;
                   applied = deltaDecorations env params (editors s1 ed)
               in s1\<lparr>editors := (editors s1)(ed := snd applied),
                      decorations := (decorations s1)
                        (key \<mapsto> \<lparr>decorationIds = fst applied, ranges = toCache\<rparr>)\<rparr>))"

definition deleteDecorations :: "'e env \<Rightarrow> string \<Rightarrow> editor_ref \<Rightarrow> 'e service \<Rightarrow> 'e service" where
  "deleteDecorations env uri ed s =
     (case decorations s uri of
        None \<Rightarrow> s
      | Some decorationWithRanges \<Rightarrow>
          let params = \<lparr>newDecorations = [], oldDecorations = decorationIds decorationWithRanges\<rparr>;
              applied = deltaDecorations env params (editors s ed)
          in s\<lparr>editors := (editors s)(ed := snd applied),
                decorations := (decorations s)(uri := None)\<rparr>)"

text \<open>
  The editor is closed: its dispose event fires and the listeners registered with it run,
  in the order of registration. These are the only calls of \<open>deleteDecorations\<close> in the
  source. Nothing in the source disposes the collection stored in
  \<open>toDisposeOnEditorClose\<close> at that moment (only the service's own \<open>dispose\<close> does), so
  the key stays in that map.
\<close>

definition fireOnDispose :: "'e env \<Rightarrow> editor_ref \<Rightarrow> 'e service \<Rightarrow> 'e service" where
  "fireOnDispose env ed s =
     fold (\<lambda>listener st. deleteDecorations env (fst listener) (snd listener) st)
       (disposeListeners s ed) s"

section \<open>Output widget (output-widget.ts)\<close>

subsection \<open>Data model\<close>

text \<open>
  Modelled from the spec: \<open>OutputChannel\<close> and \<open>OutputChannelManager\<close> are declared in
  \<open>../common/output-channel\<close>, which is not among the sources. The spec gives a channel
  a name, a list of text lines and a visibility flag; the widget reads exactly these
  (\<open>name\<close>, \<open>getLines()\<close>, \<open>isVisible\<close>). Channels are objects compared by identity
  (\<open>===\<close>), so a channel is a reference, and the manager holds the references in its own
  order together with the object each one denotes.
\<close>

type_synonym channel_ref = nat

record OutputChannel =
  name :: string
  getLines :: "string list"
  isVisible :: bool

record OutputChannelManager =
  getChannels :: "channel_ref list"
  channelAt :: "channel_ref \<Rightarrow> OutputChannel"

text \<open>
  Modelled from the spec: \<open>getChannel\<close> of the absent \<open>OutputChannelManager\<close>, as the
  lookup by name that the spec's "channel not found" speaks of: the channel of that name,
  or \<open>undefined\<close> when there is none. The change handler below takes the lookup as an
  argument, so its properties do not depend on this choice.
\<close>

definition getChannel :: "OutputChannelManager \<Rightarrow> string \<Rightarrow> channel_ref option" where
  "getChannel m channelName = find (\<lambda>c. name (channelAt m c) = channelName) (getChannels m)"

text \<open>The widget's own state: the selected channel, and how many times \<open>update()\<close> has
  been requested (\<open>update\<close> belongs to the widget framework and only schedules a
  re-rendering).\<close>

record OutputWidget =
  selectedChannel :: "channel_ref option"
  updateRequests :: nat

definition update :: "OutputWidget \<Rightarrow> OutputWidget" where
  "update w = w\<lparr>updateRequests := Suc (updateRequests w)\<rparr>"

text \<open>
  Virtual DOM nodes as the hyperscript function \<open>h\<close> builds them: a text node, or an
  element with a tag, attributes and children. A string argument of \<open>h.div\<close> or
  \<open>h.option\<close> becomes a text child. Event handlers are not attributes of the model; the
  selector's \<open>onchange\<close> is the function \<open>onchange\<close> below.
\<close>

datatype VirtualNode =
    VirtualText string
  | VirtualElement string "(string \<times> string) list" "VirtualNode list"

definition h_div :: "string \<Rightarrow> VirtualNode" where
  "h_div str = VirtualElement ''div'' [] [VirtualText str]"

definition h_option :: "(string \<times> string) list \<Rightarrow> string \<Rightarrow> VirtualNode" where
  "h_option attrs str = VirtualElement ''option'' attrs [VirtualText str]"

text \<open>Modelled from the spec: \<open>VirtualRenderer.flatten\<close> (declared in the core package, not
  among the sources) merges the arrays of children into one array, in order.\<close>

definition flatten :: "VirtualNode list list \<Rightarrow> VirtualNode list" where
  "flatten children = concat children"

definition OUTPUT_CONTENTS_ID :: string where
  "OUTPUT_CONTENTS_ID = ''outputContents''"

definition NONE :: string where
  "NONE = ''<no channels>''"

subsection \<open>Operations\<close>

text \<open>\<open>xs[0]\<close> of JavaScript: \<open>undefined\<close> on the empty array.\<close>

definition first :: "'a list \<Rightarrow> 'a option" where
  "first xs = (case xs of [] \<Rightarrow> None | x # _ \<Rightarrow> Some x)"

definition getVisibleChannels :: "OutputChannelManager \<Rightarrow> channel_ref list" where
  "getVisibleChannels m = filter (\<lambda>channel. isVisible (channelAt m channel)) (getChannels m)"

text \<open>
  \<open>text.split(/([\n\r]+)/)\<close>: the string is scanned from the left; at a line feed or
  carriage return the pattern matches the whole run of such characters, the piece read so
  far is emitted, then (the pattern has a capturing group) the run itself, and scanning
  goes on behind the run. The piece left at the end is emitted too.
\<close>

definition isLineBreak :: "char \<Rightarrow> bool" where
  "isLineBreak c = (c = CHR 0x0A \<or> c = CHR 0x0D)"

function split_loop :: "string \<Rightarrow> string \<Rightarrow> string list" where
  "split_loop piece [] = [piece]"
| "split_loop piece (c # cs) =
     (if isLineBreak c
      then piece # takeWhile isLineBreak (c # cs) # split_loop [] (dropWhile isLineBreak (c # cs))
      else split_loop (piece @ [c]) cs)"
  by pat_completeness auto
termination
  by (relation "measure (\<lambda>(piece, str). length str)")
     (auto simp: le_imp_less_Suc length_dropWhile_le)

definition split_linebreaks :: "string \<Rightarrow> string list" where
  "split_linebreaks str = split_loop [] str"

text \<open>\<open>toHtmlText\<close>: the empty string is falsy; the loop pushes one \<open>div\<close> per piece.\<close>

definition toHtmlText :: "string \<Rightarrow> VirtualNode list" where
  "toHtmlText str =
     (if str \<noteq> []
      then fold (\<lambda>line result. result @ [h_div line]) (split_linebreaks str) []
      else [] @ [h_div ''<no output yet>''])"

definition renderChannelContents :: "OutputChannelManager \<Rightarrow> OutputWidget \<Rightarrow> VirtualNode" where
  "renderChannelContents m w =
     (case selectedChannel w of
        Some c \<Rightarrow> VirtualElement ''div'' [(''id'', OUTPUT_CONTENTS_ID)]
                    (flatten (map toHtmlText (getLines (channelAt m c))))
      | None \<Rightarrow> VirtualElement ''div'' [(''id'', OUTPUT_CONTENTS_ID)] [])"

text \<open>\<open>renderChannelSelector\<close>: the \<open>forEach\<close> pushes one option per visible channel; the
  placeholder is pushed when nothing was.\<close>

definition renderChannelSelector :: "OutputChannelManager \<Rightarrow> OutputWidget \<Rightarrow> VirtualNode" where
  "renderChannelSelector m w =
     (let pushed = fold (\<lambda>channel channelOptionElements.
                       channelOptionElements @
                         [h_option ((''value'', name (channelAt m channel)) #
                                    (if Some channel = selectedChannel w
                                     then [(''selected'', ''selected'')] else []))
                                   (name (channelAt m channel))])
                     (getVisibleChannels m) [];
          channelOptionElements =
            (if length pushed = 0 then pushed @ [h_option [(''value'', NONE)] NONE] else pushed)
      in VirtualElement ''select'' [(''id'', ''outputChannelList'')] channelOptionElements)"

text \<open>The selector's \<open>onchange\<close> handler; \<open>getChannel_of\<close> is the manager's
  \<open>getChannel\<close>, \<open>channelName\<close> the value of the chosen option.\<close>

definition onchange :: "(string \<Rightarrow> channel_ref option) \<Rightarrow> string \<Rightarrow> OutputWidget \<Rightarrow> OutputWidget" where
  "onchange getChannel_of channelName w =
     (if channelName \<noteq> NONE
      then update (w\<lparr>selectedChannel := getChannel_of channelName\<rparr>)
      else w)"

text \<open>The listener that \<open>init\<close> registers with \<open>onChannelDelete\<close>; \<open>m\<close> is the manager as it
  is when the event fires.\<close>

definition onChannelDelete :: "OutputChannelManager \<Rightarrow> string \<Rightarrow> OutputWidget \<Rightarrow> OutputWidget" where
  "onChannelDelete m channelName w =
     update (case selectedChannel w of
               None \<Rightarrow> w
             | Some c \<Rightarrow>
                 if name (channelAt m c) = channelName
                 then w\<lparr>selectedChannel := first (getVisibleChannels m)\<rparr>
                 else w)"

text \<open>The listener that \<open>registerListener\<close> registers with the channel's
  \<open>onVisibilityChange\<close>; \<open>visible\<close> is \<open>event.visible\<close>.\<close>

definition onVisibilityChange ::
  "OutputChannelManager \<Rightarrow> channel_ref \<Rightarrow> bool \<Rightarrow> OutputWidget \<Rightarrow> OutputWidget" where
  "onVisibilityChange m outputChannel visible w =
     update (if visible then w\<lparr>selectedChannel := Some outputChannel\<rparr>
             else if Some outputChannel = selectedChannel w
                  then w\<lparr>selectedChannel := first (getVisibleChannels m)\<rparr>
                  else w)"

subsection \<open>The contents pane as the specification words it\<close>

text \<open>
  The specification's reading of the contents pane, for comparison with the code: a line
  is split on runs of line feeds and carriage returns, and only the segments between the
  runs become \<open>div\<close>s.
\<close>

function segments_loop :: "string \<Rightarrow> string \<Rightarrow> string list" where
  "segments_loop piece [] = [piece]"
| "segments_loop piece (c # cs) =
     (if isLineBreak c then piece # segments_loop [] (dropWhile isLineBreak cs)
      else segments_loop (piece @ [c]) cs)"
  by pat_completeness auto
termination
  by (relation "measure (\<lambda>(piece, str). length str)")
     (auto simp: le_imp_less_Suc length_dropWhile_le)

definition splitOnRuns_spec :: "string \<Rightarrow> string list" where
  "splitOnRuns_spec str = segments_loop [] str"

definition toHtmlText_spec :: "string \<Rightarrow> VirtualNode list" where
  "toHtmlText_spec str =
     (if str \<noteq> [] then map h_div (splitOnRuns_spec str) else [h_div ''<no output yet>''])"

definition renderChannelContents_spec :: "OutputChannelManager \<Rightarrow> OutputWidget \<Rightarrow> VirtualNode" where
  "renderChannelContents_spec m w =
     (case selectedChannel w of
        Some c \<Rightarrow> VirtualElement ''div'' [(''id'', ''outputContents'')]
                    (concat (map toHtmlText_spec (getLines (channelAt m c))))
      | None \<Rightarrow> VirtualElement ''div'' [(''id'', ''outputContents'')] [])"

text \<open>The elements at even and at odd positions of a list (positions count from 0).\<close>

fun evens :: "'a list \<Rightarrow> 'a list" where
  "evens [] = []"
| "evens [x] = [x]"
| "evens (x # y # xs) = x # evens xs"

fun odds :: "'a list \<Rightarrow> 'a list" where
  "odds [] = []"
| "odds [x] = []"
| "odds (x # y # xs) = y # odds xs"

section \<open>Concrete inputs\<close>

text \<open>
  An editor manager with a Monaco editor for \<open>file:///a.ts\<close>, another kind of editor for
  \<open>file:///b.md\<close> and nothing else. The state of an editor is the list of the
  \<open>deltaDecorations\<close> calls it has received; the identifiers it hands out are tagged with
  the number of the call.
\<close>

definition demoEnv :: "(DeltaDecorationParams list) env" where
  "demoEnv =
     \<lparr>getByUri = (\<lambda>u. if u = URI ''file:///a.ts'' then Some \<lparr>editor = MonacoEditor 0\<rparr>
                     else if u = URI ''file:///b.md'' then Some \<lparr>editor = OtherTextEditor 1\<rparr>
                     else None),
      deltaDecorations = (\<lambda>p calls.
         (map (\<lambda>d. replicate (Suc (length calls)) CHR ''#'') (newDecorations p), calls @ [p])),
      onDispose = (\<lambda>key calls. calls),
      classNameOfScope = (\<lambda>scope. ''mtk1'')\<rparr>"

definition demoRange :: "nat \<Rightarrow> nat \<Rightarrow> nat \<Rightarrow> SemanticHighlightingRange" where
  "demoRange l c1 c2 =
     \<lparr>start = \<lparr>line = l, character = c1\<rparr>, end' = \<lparr>line = l, character = c2\<rparr>,
      scopes = [''keyword'']\<rparr>"

definition demoService :: "(DeltaDecorationParams list) service" where
  "demoService =
     \<lparr>toDisposeOnEditorClose = Map.empty,
      decorations = [''file:///a.ts'' \<mapsto>
         \<lparr>decorationIds = [''x1'', ''x2''], ranges = [demoRange 1 0 3, demoRange 2 4 6]\<rparr>],
      editors = (\<lambda>_. []),
      disposeListeners = (\<lambda>_. [])\<rparr>"

text \<open>A service that has not decorated anything yet, and the editor manager after the
  editor of \<open>file:///a.ts\<close> has been closed and the file opened again: a new editor
  object (number 2) shows the file.\<close>

definition freshService :: "(DeltaDecorationParams list) service" where
  "freshService =
     \<lparr>toDisposeOnEditorClose = Map.empty,
      decorations = Map.empty,
      editors = (\<lambda>_. []),
      disposeListeners = (\<lambda>_. [])\<rparr>"

definition demoEnvReopened :: "(DeltaDecorationParams list) env" where
  "demoEnvReopened =
     demoEnv\<lparr>getByUri := (\<lambda>u. if u = URI ''file:///a.ts'' then Some \<lparr>editor = MonacoEditor 2\<rparr>
                                else None)\<rparr>"

text \<open>Three channels: \<open>build\<close> (visible; one line with a line feed in it and one empty
  line), \<open>hidden\<close> (not visible) and \<open>test\<close> (visible); \<open>build\<close> is selected.\<close>

definition demoManager :: OutputChannelManager where
  "demoManager =
     \<lparr>getChannels = [0, 1, 2],
      channelAt = (\<lambda>c.
         if c = 0 then \<lparr>name = ''build'', getLines = [[CHR ''a'', CHR 0x0A, CHR ''b''], []],
                         isVisible = True\<rparr>
         else if c = 1 then \<lparr>name = ''hidden'', getLines = [], isVisible = False\<rparr>
         else \<lparr>name = ''test'', getLines = [''ok''], isVisible = True\<rparr>)\<rparr>"

definition demoWidget :: OutputWidget where
  "demoWidget = \<lparr>selectedChannel = Some 0, updateRequests = 0\<rparr>"

section \<open>Properties of the semantic highlighting service\<close>

text \<open>
  What \<open>decorate\<close> does once a Monaco editor is found. \<open>e0\<close> is the editor as
  \<open>deltaDecorations\<close> finds it: with the dispose listener registered if this is the
  first call for the key.
\<close>

lemma decorate_found:
  assumes "getByUri env uri = Some w" and "editor w = MonacoEditor ed"
  shows "decorate env uri rs s =
    (let key = toString uri;
         e0 = (if toDisposeOnEditorClose s key \<noteq> None then editors s ed
               else onDispose env key (editors s ed));
         oldState = (case decorations s key of Some st \<Rightarrow> st | None \<Rightarrow> EMPTY);
         toCache = rangesToCache oldState rs;
         applied = deltaDecorations env
            \<lparr>newDecorations = map (toDecoration env) toCache,
             oldDecorations = decorationIds oldState\<rparr> e0
     in \<lparr>toDisposeOnEditorClose =
           (if toDisposeOnEditorClose s key \<noteq> None then toDisposeOnEditorClose s
            else (toDisposeOnEditorClose s)
                   (key \<mapsto> DisposableCollection [OnDisposeListener key ed, DeleteFromToDispose key])),
         decorations = (decorations s)(key \<mapsto> \<lparr>decorationIds = fst applied, ranges = toCache\<rparr>),
         editors = (editors s)(ed := snd applied),
         disposeListeners =
           (if toDisposeOnEditorClose s key \<noteq> None then disposeListeners s
            else (disposeListeners s)(ed := disposeListeners s ed @ [(key, ed)]))\<rparr>)"
  using assms by (simp add: decorate_def Let_def)

lemma rangesToCache_again:
  "rangesToCache \<lparr>decorationIds = ids, ranges = rangesToCache old rs\<rparr> rs = rangesToCache old rs"
  by (simp add: rangesToCache_def Let_def filter_empty_conv)

text \<open>
  C1. For a URI with a cached decoration state \<open>old\<close> and any new list of ranges \<open>rs\<close>,
  \<open>decorate\<close> (reaching its merge step, that is, with a Monaco editor found for the URI)
  caches exactly the old ranges whose start line is not among the start lines of \<open>rs\<close>,
  followed by \<open>rs\<close>.
\<close>

theorem decorate_caches_merged_ranges:
  assumes "getByUri env uri = Some w" and "editor w = MonacoEditor ed"
    and "decorations s (toString uri) = Some old"
  shows "map_option ranges (decorations (decorate env uri rs s) (toString uri)) =
     Some (filter (\<lambda>r. line (start r) \<notin> set (map (\<lambda>r. line (start r)) rs)) (ranges old) @ rs)"
  using assms by (simp add: decorate_found Let_def rangesToCache_def)

theorem decorate_caches_merged_ranges_witness:
  "map_option ranges (decorations
      (decorate demoEnv (URI ''file:///a.ts'') [demoRange 2 0 1, demoRange 5 2 8] demoService)
      ''file:///a.ts'') =
   Some [demoRange 1 0 3, demoRange 2 0 1, demoRange 5 2 8]"
  using decorate_caches_merged_ranges [of demoEnv "URI ''file:///a.ts''" "\<lparr>editor = MonacoEditor 0\<rparr>" 0
      demoService "\<lparr>decorationIds = [''x1'', ''x2''], ranges = [demoRange 1 0 3, demoRange 2 4 6]\<rparr>"
      "[demoRange 2 0 1, demoRange 5 2 8]"]
  by (simp add: demoEnv_def demoService_def demoRange_def)

text \<open>
  C2. After a \<open>decorate\<close> call that finds a Monaco editor for the URI, the list of
  decoration identifiers cached for the URI is exactly the list that the call's
  \<open>deltaDecorations\<close> returned, and the editor is in the state that this same
  \<open>deltaDecorations\<close> call left it in.
\<close>

theorem decorate_caches_applied_ids:
  assumes "getByUri env uri = Some w" and "editor w = MonacoEditor ed"
  shows "let key = toString uri;
             e0 = (if toDisposeOnEditorClose s key \<noteq> None then editors s ed
                   else onDispose env key (editors s ed));
             oldState = (case decorations s key of Some st \<Rightarrow> st | None \<Rightarrow> EMPTY);
             applied = deltaDecorations env
               \<lparr>newDecorations = map (toDecoration env) (rangesToCache oldState rs),
                oldDecorations = decorationIds oldState\<rparr> e0;
             s' = decorate env uri rs s
         in editors s' ed = snd applied \<and>
            map_option decorationIds (decorations s' key) = Some (fst applied)"
  using assms by (simp add: decorate_found Let_def)

theorem decorate_caches_applied_ids_witness:
  "editors (decorate demoEnv (URI ''file:///a.ts'') [demoRange 2 0 1] demoService) 0 =
     [\<lparr>newDecorations = map (toDecoration demoEnv) [demoRange 1 0 3, demoRange 2 0 1],
       oldDecorations = [''x1'', ''x2'']\<rparr>] \<and>
   map_option decorationIds
     (decorations (decorate demoEnv (URI ''file:///a.ts'') [demoRange 2 0 1] demoService)
        ''file:///a.ts'') = Some [''#'', ''#'']"
  using decorate_caches_applied_ids [of demoEnv "URI ''file:///a.ts''" "\<lparr>editor = MonacoEditor 0\<rparr>" 0
      demoService "[demoRange 2 0 1]"]
  by (simp add: demoEnv_def demoService_def demoRange_def Let_def rangesToCache_def)

text \<open>
  C3. If no editor widget is found for the URI, or the widget's editor is not a Monaco
  editor, \<open>decorate\<close> returns the state it was given: the decorations map, the map of
  disposables and every editor are unchanged. (No path of \<open>decorate\<close> raises; the model
  has no error result.)
\<close>

theorem decorate_noop_without_monaco_editor:
  assumes "getByUri env uri = None \<or>
           (\<exists>w ed. getByUri env uri = Some w \<and> editor w = OtherTextEditor ed)"
  shows "decorate env uri rs s = s"
  using assms by (auto simp: decorate_def)

theorem decorate_noop_without_monaco_editor_witness:
  "decorate demoEnv (URI ''file:///missing.ts'') [demoRange 2 0 1] demoService = demoService \<and>
   decorate demoEnv (URI ''file:///b.md'') [demoRange 2 0 1] demoService = demoService"
  using decorate_noop_without_monaco_editor [of demoEnv "URI ''file:///missing.ts''" "[demoRange 2 0 1]" demoService]
    decorate_noop_without_monaco_editor [of demoEnv "URI ''file:///b.md''" "[demoRange 2 0 1]" demoService]
  by (simp add: demoEnv_def)

text \<open>
  The span of the decoration that \<open>toDecoration\<close> makes: the lines are those of the
  range, both characters are moved two columns to the right.
\<close>

lemma toDecoration_span:
  "line (start (range' (toDecoration env r))) = line (start r) \<and>
   character (start (range' (toDecoration env r))) = character (start r) + 2 \<and>
   line (end' (range' (toDecoration env r))) = line (end' r) \<and>
   character (end' (range' (toDecoration env r))) = character (end' r) + 2"
  by (simp add: toDecoration_def Let_def)

text \<open>
  C4. The decoration made for a semantic highlighting range should have the start line,
  start character, end line and end character of that range. The code does not do this:
  for the range from 3:4 to 3:9 the decoration spans 3:6 to 3:11. The source marks the
  shift as a hack and keeps the unshifted \<open>const { start, end } = range\<close> in a comment.
\<close>

theorem toDecoration_shifts_characters:
  "start (demoRange 3 4 9) = \<lparr>line = 3, character = 4\<rparr> \<and>
   end' (demoRange 3 4 9) = \<lparr>line = 3, character = 9\<rparr> \<and>
   range' (toDecoration demoEnv (demoRange 3 4 9)) =
     \<lparr>start = \<lparr>line = 3, character = 6\<rparr>, end' = \<lparr>line = 3, character = 11\<rparr>\<rparr>"
  by (simp add: toDecoration_def demoRange_def Let_def)

text \<open>
  The part of the replacement that the code does: when \<open>decorate\<close> runs for a URI that
  has a cached state \<open>old\<close> (and a Monaco editor), the editor receives one
  \<open>deltaDecorations\<close> call whose \<open>oldDecorations\<close> are exactly the identifiers cached in
  \<open>old\<close>. This holds for every implementation of \<open>deltaDecorations\<close>, so it fixes the
  argument of the call.
\<close>

lemma decorate_passes_cached_ids:
  assumes "getByUri env uri = Some w" and "editor w = MonacoEditor ed"
    and "decorations s (toString uri) = Some old"
  shows "editors (decorate env uri rs s) ed =
     snd (deltaDecorations env
            \<lparr>newDecorations = map (toDecoration env) (rangesToCache old rs),
             oldDecorations = decorationIds old\<rparr>
            (if toDisposeOnEditorClose s (toString uri) \<noteq> None then editors s ed
             else onDispose env (toString uri) (editors s ed)))"
  using assms by (simp add: decorate_found Let_def)

text \<open>What a call of \<open>deleteDecorations\<close> does for a key with a cached state.\<close>

lemma deleteDecorations_cached:
  assumes "decorations s key = Some old"
  shows "deleteDecorations env key ed s =
     s\<lparr>editors := (editors s)(ed := snd (deltaDecorations env
            \<lparr>newDecorations = [], oldDecorations = decorationIds old\<rparr> (editors s ed))),
       decorations := (decorations s)(key := None)\<rparr>"
  using assms by (simp add: deleteDecorations_def Let_def)

text \<open>
  The first editor of a key: \<open>decorate\<close> registers the listener with it, and when that
  editor is closed the cached identifiers are passed with an empty list of new decorations
  and the cache entry of the key is deleted.
\<close>

lemma close_of_first_editor_deletes:
  assumes "getByUri env uri = Some w" and "editor w = MonacoEditor ed"
    and "toDisposeOnEditorClose s (toString uri) = None" and "disposeListeners s ed = []"
  shows "decorations (fireOnDispose env ed (decorate env uri rs s)) (toString uri) = None"
    and "editors (fireOnDispose env ed (decorate env uri rs s)) ed =
      snd (deltaDecorations env
        \<lparr>newDecorations = [],
         oldDecorations =
           the (map_option decorationIds (decorations (decorate env uri rs s) (toString uri)))\<rparr>
        (editors (decorate env uri rs s) ed))"
  using assms by (simp_all add: decorate_found Let_def fireOnDispose_def deleteDecorations_def)

text \<open>
  A later editor of the same key: the key is still in \<open>toDisposeOnEditorClose\<close>, so
  \<open>decorate\<close> registers no listener with the new editor, and closing it changes nothing:
  \<open>deleteDecorations\<close> is not called and the cache entry stays.
\<close>

lemma close_of_later_editor_does_nothing:
  assumes "getByUri env uri = Some w" and "editor w = MonacoEditor ed"
    and "toDisposeOnEditorClose s (toString uri) \<noteq> None" and "disposeListeners s ed = []"
  shows "fireOnDispose env ed (decorate env uri rs s) = decorate env uri rs s"
    and "decorations (decorate env uri rs s) (toString uri) \<noteq> None"
  using assms by (simp_all add: decorate_found Let_def fireOnDispose_def)

text \<open>
  C7. On every \<open>decorate\<close> call for a URI with a cached state the identifiers passed as
  \<open>oldDecorations\<close> are the cached ones, and on editor close \<open>deleteDecorations\<close> should
  pass all cached identifiers with an empty list of new decorations and delete the URI's
  cache entry. The code does the second only for the first editor of a URI. Here
  \<open>file:///a.ts\<close> is decorated in editor 0 and editor 0 is closed: the cache entry is
  deleted, but the key stays in \<open>toDisposeOnEditorClose\<close>. The file is opened again in
  editor 2 and decorated: no listener is registered with editor 2. Editor 2 is closed: the
  editor has received the one call of \<open>decorate\<close> and no call that removes the
  decorations, and the cache entry of the URI is still there.
\<close>

theorem cache_entry_survives_close_after_reopen:
  "decorations (fireOnDispose demoEnv 0
      (decorate demoEnv (URI ''file:///a.ts'') [demoRange 1 0 3] freshService))
      ''file:///a.ts'' = None \<and>
   toDisposeOnEditorClose (fireOnDispose demoEnv 0
      (decorate demoEnv (URI ''file:///a.ts'') [demoRange 1 0 3] freshService))
      ''file:///a.ts'' =
     Some (DisposableCollection
       [OnDisposeListener ''file:///a.ts'' 0, DeleteFromToDispose ''file:///a.ts'']) \<and>
   disposeListeners (decorate demoEnvReopened (URI ''file:///a.ts'') [demoRange 2 0 1]
      (fireOnDispose demoEnv 0
         (decorate demoEnv (URI ''file:///a.ts'') [demoRange 1 0 3] freshService))) 2 = [] \<and>
   decorations (fireOnDispose demoEnvReopened 2
      (decorate demoEnvReopened (URI ''file:///a.ts'') [demoRange 2 0 1]
         (fireOnDispose demoEnv 0
            (decorate demoEnv (URI ''file:///a.ts'') [demoRange 1 0 3] freshService))))
      ''file:///a.ts'' =
     Some \<lparr>decorationIds = [''#''], ranges = [demoRange 2 0 1]\<rparr> \<and>
   editors (fireOnDispose demoEnvReopened 2
      (decorate demoEnvReopened (URI ''file:///a.ts'') [demoRange 2 0 1]
         (fireOnDispose demoEnv 0
            (decorate demoEnv (URI ''file:///a.ts'') [demoRange 1 0 3] freshService)))) 2 =
     [\<lparr>newDecorations = [toDecoration demoEnv (demoRange 2 0 1)], oldDecorations = []\<rparr>]"
  by (simp add: decorate_def fireOnDispose_def deleteDecorations_def demoEnv_def
      demoEnvReopened_def freshService_def demoRange_def rangesToCache_def EMPTY_def
      toDecoration_def toOptions_def Let_def)

text \<open>
  C9. The merge step is idempotent: merging the range list \<open>rs\<close> into the result of
  merging \<open>rs\<close> into any old state gives that result again; and so the ranges cached for
  the URI after two \<open>decorate\<close> calls with the same range list are the ranges cached
  after one.
\<close>

theorem decorate_merge_idempotent:
  "rangesToCache \<lparr>decorationIds = ids, ranges = rangesToCache old rs\<rparr> rs = rangesToCache old rs \<and>
   map_option ranges (decorations (decorate env uri rs (decorate env uri rs s)) (toString uri)) =
   map_option ranges (decorations (decorate env uri rs s) (toString uri))"
proof
  show "rangesToCache \<lparr>decorationIds = ids, ranges = rangesToCache old rs\<rparr> rs = rangesToCache old rs"
    by (rule rangesToCache_again)
next
  show "map_option ranges (decorations (decorate env uri rs (decorate env uri rs s)) (toString uri)) =
    map_option ranges (decorations (decorate env uri rs s) (toString uri))"
  proof (cases "getByUri env uri")
    case None
    then show ?thesis by (simp add: decorate_def)
  next
    case (Some w)
    show ?thesis
    proof (cases "editor w")
      case (OtherTextEditor ed)
      with Some show ?thesis by (simp add: decorate_def)
    next
      case (MonacoEditor ed)
      with Some show ?thesis
        by (simp add: decorate_found Let_def rangesToCache_again)
    qed
  qed
qed

theorem decorate_merge_idempotent_witness:
  "map_option ranges (decorations
      (decorate demoEnv (URI ''file:///a.ts'') [demoRange 2 0 1]
         (decorate demoEnv (URI ''file:///a.ts'') [demoRange 2 0 1] demoService)) ''file:///a.ts'') =
   Some [demoRange 1 0 3, demoRange 2 0 1]"
  using decorate_merge_idempotent [of "[]" EMPTY "[demoRange 2 0 1]" demoEnv "URI ''file:///a.ts''" demoService]
  by (simp add: demoEnv_def demoService_def demoRange_def Let_def rangesToCache_def decorate_def)

section \<open>Properties of the output widget\<close>

subsection \<open>Loops and the split\<close>

lemma fold_push: "fold (\<lambda>x acc. acc @ [f x]) xs acc = acc @ map f xs"
  by (induction xs arbitrary: acc) auto

text \<open>The pieces of the split, put together again, are the string.\<close>

lemma concat_split_loop: "concat (split_loop piece str) = piece @ str"
proof (induction piece str rule: split_loop.induct)
  case (1 piece)
  show ?case by simp
next
  case (2 piece c cs)
  show ?case
  proof (cases "isLineBreak c")
    case True
    have "takeWhile isLineBreak (c # cs) @ dropWhile isLineBreak (c # cs) = c # cs"
      by (rule takeWhile_dropWhile_id)
    with True "2.IH"(1) show ?thesis by simp
  next
    case False
    with "2.IH"(2) show ?thesis by simp
  qed
qed

text \<open>The pieces at even positions are the segments between the runs.\<close>

lemma evens_split_loop: "evens (split_loop piece str) = segments_loop piece str"
  by (induction piece str rule: split_loop.induct) simp_all

text \<open>The pieces at odd positions are the runs: not empty, line breaks only.\<close>

lemma odds_split_loop:
  "run \<in> set (odds (split_loop piece str)) \<Longrightarrow> run \<noteq> [] \<and> (\<forall>ch \<in> set run. isLineBreak ch)"
proof (induction piece str rule: split_loop.induct)
  case (1 piece)
  then show ?case by simp
next
  case (2 piece c cs)
  show ?case
  proof (cases "isLineBreak c")
    case True
    with "2.prems" have "run = c # takeWhile isLineBreak cs \<or>
        run \<in> set (odds (split_loop [] (dropWhile isLineBreak (c # cs))))"
      by auto
    then show ?thesis
    proof
      assume "run = c # takeWhile isLineBreak cs"
      with True show ?thesis by (auto dest: set_takeWhileD)
    next
      assume "run \<in> set (odds (split_loop [] (dropWhile isLineBreak (c # cs))))"
      with True "2.IH"(1) show ?thesis by simp
    qed
  next
    case False
    with "2.IH"(2) "2.prems" show ?thesis by simp
  qed
qed

lemma segments_loop_no_breaks:
  "\<forall>ch \<in> set piece. \<not> isLineBreak ch \<Longrightarrow> seg \<in> set (segments_loop piece str) \<Longrightarrow>
   ch \<in> set seg \<Longrightarrow> \<not> isLineBreak ch"
  by (induction piece str rule: segments_loop.induct) (auto split: if_splits)

lemma toHtmlText_map: "str \<noteq> [] \<Longrightarrow> toHtmlText str = map h_div (split_linebreaks str)"
  by (simp add: toHtmlText_def fold_push)

subsection \<open>The channel selector\<close>

text \<open>
  C5, as claimed: if the chosen channel name is not found among the channels, the change
  handler does nothing. The code does not test this. With the channels \<open>build\<close>,
  \<open>hidden\<close> and \<open>test\<close>, \<open>build\<close> selected and the value \<open>zzz\<close> chosen, the lookup finds
  no channel, the selection becomes undefined and the contents pane changes.
\<close>

theorem onchange_unknown_channel_counterexample:
  "''zzz'' \<notin> set (map (\<lambda>c. name (channelAt demoManager c)) (getChannels demoManager)) \<and>
   selectedChannel demoWidget = Some 0 \<and>
   selectedChannel (onchange (getChannel demoManager) ''zzz'' demoWidget) = None \<and>
   renderChannelContents demoManager (onchange (getChannel demoManager) ''zzz'' demoWidget) \<noteq>
     renderChannelContents demoManager demoWidget"
  by (simp add: onchange_def getChannel_def demoManager_def demoWidget_def NONE_def update_def
      renderChannelContents_def flatten_def toHtmlText_def)

text \<open>
  C5, amended. The change handler does nothing exactly when the chosen value is the
  placeholder \<open><no channels>\<close>: then the widget is unchanged. For every other value,
  whether or not a channel of that name exists, the selected channel becomes what the
  manager's \<open>getChannel\<close> returns for the value, and one update is requested.
\<close>

theorem onchange_placeholder_only:
  "(channelName = ''<no channels>'' \<longrightarrow> onchange getChannel_of channelName w = w) \<and>
   (channelName \<noteq> ''<no channels>'' \<longrightarrow>
      selectedChannel (onchange getChannel_of channelName w) = getChannel_of channelName \<and>
      updateRequests (onchange getChannel_of channelName w) = Suc (updateRequests w))"
  by (simp add: onchange_def NONE_def update_def)

theorem onchange_placeholder_only_witness:
  "onchange (getChannel demoManager) ''<no channels>'' demoWidget = demoWidget \<and>
   selectedChannel (onchange (getChannel demoManager) ''test'' demoWidget) = Some 2 \<and>
   updateRequests (onchange (getChannel demoManager) ''test'' demoWidget) = 1"
  using onchange_placeholder_only [of "''<no channels>''" "getChannel demoManager" demoWidget]
    onchange_placeholder_only [of "''test''" "getChannel demoManager" demoWidget]
  by (simp add: getChannel_def demoManager_def demoWidget_def)

text \<open>
  C8. The drop-down lists exactly the channels whose visibility flag is true, in the
  manager's order, one option per channel with the channel's name as value and text, and
  the option of the selected channel marked \<open>selected\<close>; when no channel is visible it
  lists the single placeholder option \<open><no channels>\<close>.
\<close>

theorem renderChannelSelector_options:
  "renderChannelSelector m w =
     VirtualElement ''select'' [(''id'', ''outputChannelList'')]
       (if filter (\<lambda>c. isVisible (channelAt m c)) (getChannels m) = []
        then [h_option [(''value'', ''<no channels>'')] ''<no channels>'']
        else map (\<lambda>c. h_option ((''value'', name (channelAt m c)) #
                                  (if selectedChannel w = Some c then [(''selected'', ''selected'')]
                                   else []))
                               (name (channelAt m c)))
               (filter (\<lambda>c. isVisible (channelAt m c)) (getChannels m)))"
  by (simp add: renderChannelSelector_def getVisibleChannels_def fold_push NONE_def Let_def
      eq_commute [of "selectedChannel w"])

theorem renderChannelSelector_options_witness:
  "renderChannelSelector demoManager demoWidget =
     VirtualElement ''select'' [(''id'', ''outputChannelList'')]
       [h_option [(''value'', ''build''), (''selected'', ''selected'')] ''build'',
        h_option [(''value'', ''test'')] ''test''] \<and>
   renderChannelSelector (demoManager\<lparr>getChannels := [1]\<rparr>) demoWidget =
     VirtualElement ''select'' [(''id'', ''outputChannelList'')]
       [h_option [(''value'', ''<no channels>'')] ''<no channels>'']"
  using renderChannelSelector_options [of demoManager demoWidget]
    renderChannelSelector_options [of "demoManager\<lparr>getChannels := [1]\<rparr>" demoWidget]
  by (simp add: demoManager_def demoWidget_def)

subsection \<open>The contents pane\<close>

text \<open>
  C6, as claimed: a non-empty line is split on runs of line feeds and carriage returns
  into one \<open>div\<close> per segment. The code also makes a \<open>div\<close> of every run, because the
  pattern of the split has a capturing group: the line \<open>a\<close>, line feed, \<open>b\<close> gives three
  \<open>div\<close>s, not two.
\<close>

theorem renderChannelContents_split_counterexample:
  "renderChannelContents demoManager demoWidget =
     VirtualElement ''div'' [(''id'', ''outputContents'')]
       [h_div ''a'', h_div [CHR 0x0A], h_div ''b'', h_div ''<no output yet>''] \<and>
   renderChannelContents_spec demoManager demoWidget =
     VirtualElement ''div'' [(''id'', ''outputContents'')]
       [h_div ''a'', h_div ''b'', h_div ''<no output yet>''] \<and>
   renderChannelContents demoManager demoWidget \<noteq> renderChannelContents_spec demoManager demoWidget"
  by (simp add: renderChannelContents_def renderChannelContents_spec_def demoManager_def
      demoWidget_def OUTPUT_CONTENTS_ID_def flatten_def toHtmlText_def toHtmlText_spec_def
      split_linebreaks_def splitOnRuns_spec_def isLineBreak_def)

text \<open>
  C6, amended. With no channel selected the contents pane has no children. With a channel
  selected it holds, for the channel's lines in order, the \<open>div\<close>s of each line: a single
  \<open><no output yet>\<close> \<open>div\<close> for an empty line, and for a non-empty line one \<open>div\<close> per
  piece of the split, where the pieces are, alternately, the segments between the runs of
  line feeds and carriage returns (the pieces at even positions, free of line breaks) and
  the runs themselves (the pieces at odd positions, non-empty and made of line breaks
  only); put together, the pieces are the line.
\<close>

theorem renderChannelContents_divs:
  "(selectedChannel w = None \<longrightarrow>
      renderChannelContents m w = VirtualElement ''div'' [(''id'', ''outputContents'')] []) \<and>
   (selectedChannel w = Some c \<longrightarrow>
      renderChannelContents m w =
        VirtualElement ''div'' [(''id'', ''outputContents'')]
          (concat (map toHtmlText (getLines (channelAt m c))))) \<and>
   toHtmlText [] = [h_div ''<no output yet>''] \<and>
   (str \<noteq> [] \<longrightarrow> toHtmlText str = map h_div (split_linebreaks str)) \<and>
   concat (split_linebreaks str) = str \<and>
   evens (split_linebreaks str) = splitOnRuns_spec str \<and>
   (\<forall>run \<in> set (odds (split_linebreaks str)). run \<noteq> [] \<and> (\<forall>ch \<in> set run. isLineBreak ch)) \<and>
   (\<forall>seg \<in> set (splitOnRuns_spec str). \<forall>ch \<in> set seg. \<not> isLineBreak ch)"
proof -
  have a: "selectedChannel w = None \<longrightarrow>
      renderChannelContents m w = VirtualElement ''div'' [(''id'', ''outputContents'')] []"
    by (simp add: renderChannelContents_def OUTPUT_CONTENTS_ID_def)
  have b: "selectedChannel w = Some c \<longrightarrow>
      renderChannelContents m w =
        VirtualElement ''div'' [(''id'', ''outputContents'')]
          (concat (map toHtmlText (getLines (channelAt m c))))"
    by (simp add: renderChannelContents_def OUTPUT_CONTENTS_ID_def flatten_def)
  have c: "toHtmlText [] = [h_div ''<no output yet>'']"
    by (simp add: toHtmlText_def)
  have d: "str \<noteq> [] \<longrightarrow> toHtmlText str = map h_div (split_linebreaks str)"
    by (simp add: toHtmlText_map)
  have e: "concat (split_linebreaks str) = str"
    by (simp add: split_linebreaks_def concat_split_loop)
  have f: "evens (split_linebreaks str) = splitOnRuns_spec str"
    by (simp add: split_linebreaks_def splitOnRuns_spec_def evens_split_loop)
  have g: "\<forall>run \<in> set (odds (split_linebreaks str)). run \<noteq> [] \<and> (\<forall>ch \<in> set run. isLineBreak ch)"
    unfolding split_linebreaks_def using odds_split_loop by blast
  have h: "\<forall>seg \<in> set (splitOnRuns_spec str). \<forall>ch \<in> set seg. \<not> isLineBreak ch"
    unfolding splitOnRuns_spec_def using segments_loop_no_breaks [of "[]"] by auto
  from a b c d e f g h show ?thesis by blast
qed

theorem renderChannelContents_divs_witness:
  "renderChannelContents demoManager demoWidget =
     VirtualElement ''div'' [(''id'', ''outputContents'')]
       [h_div ''a'', h_div [CHR 0x0A], h_div ''b'', h_div ''<no output yet>''] \<and>
   renderChannelContents demoManager (demoWidget\<lparr>selectedChannel := None\<rparr>) =
     VirtualElement ''div'' [(''id'', ''outputContents'')] [] \<and>
   splitOnRuns_spec [CHR ''a'', CHR 0x0A, CHR ''b''] = [''a'', ''b'']"
  using renderChannelContents_divs [of demoWidget demoManager 0 "[CHR ''a'', CHR 0x0A, CHR ''b'']"]
    renderChannelContents_divs [of "demoWidget\<lparr>selectedChannel := None\<rparr>" demoManager 0
      "[CHR ''a'', CHR 0x0A, CHR ''b'']"]
  by (simp add: demoManager_def demoWidget_def split_linebreaks_def isLineBreak_def)

subsection \<open>The selection when channels go away\<close>

text \<open>
  C10. When the selected channel is deleted (the delete event names it) or becomes
  invisible, the selected channel becomes the first visible channel in the manager's
  order, or undefined when no channel is visible. Deleting a channel of another name, or
  deleting while nothing is selected, and hiding a channel that is not the selected one,
  leave the selection as it is. The manager \<open>m\<close> is the manager as the listener finds it.
\<close>

theorem selection_follows_first_visible:
  "(selectedChannel w = Some c \<and> name (channelAt m c) = channelName \<longrightarrow>
      selectedChannel (onChannelDelete m channelName w) =
        (case filter (\<lambda>c. isVisible (channelAt m c)) (getChannels m) of
           [] \<Rightarrow> None | v # _ \<Rightarrow> Some v)) \<and>
   (selectedChannel w = None \<or> (selectedChannel w = Some c \<and> name (channelAt m c) \<noteq> channelName) \<longrightarrow>
      selectedChannel (onChannelDelete m channelName w) = selectedChannel w) \<and>
   (selectedChannel w = Some outputChannel \<longrightarrow>
      selectedChannel (onVisibilityChange m outputChannel False w) =
        (case filter (\<lambda>c. isVisible (channelAt m c)) (getChannels m) of
           [] \<Rightarrow> None | v # _ \<Rightarrow> Some v)) \<and>
   (selectedChannel w \<noteq> Some outputChannel \<longrightarrow>
      selectedChannel (onVisibilityChange m outputChannel False w) = selectedChannel w)"
  by (auto simp: onChannelDelete_def onVisibilityChange_def update_def first_def
      getVisibleChannels_def)

theorem selection_follows_first_visible_witness:
  "selectedChannel (onChannelDelete (demoManager\<lparr>getChannels := [1, 2]\<rparr>) ''build'' demoWidget) = Some 2 \<and>
   selectedChannel (onChannelDelete (demoManager\<lparr>getChannels := [1]\<rparr>) ''build'' demoWidget) = None \<and>
   selectedChannel (onChannelDelete (demoManager\<lparr>getChannels := [0, 1]\<rparr>) ''test'' demoWidget) = Some 0 \<and>
   selectedChannel (onVisibilityChange
      (demoManager\<lparr>channelAt := (channelAt demoManager)(0 := (channelAt demoManager 0)\<lparr>isVisible := False\<rparr>)\<rparr>)
      0 False demoWidget) = Some 2 \<and>
   selectedChannel (onVisibilityChange
      (demoManager\<lparr>channelAt := (channelAt demoManager)(2 := (channelAt demoManager 2)\<lparr>isVisible := False\<rparr>)\<rparr>)
      2 False demoWidget) = Some 0"
  using
    selection_follows_first_visible [where w = demoWidget and c = 0 and outputChannel = 0
      and m = "demoManager\<lparr>getChannels := [1, 2]\<rparr>" and channelName = "''build''"]
    selection_follows_first_visible [where w = demoWidget and c = 0 and outputChannel = 0
      and m = "demoManager\<lparr>getChannels := [1]\<rparr>" and channelName = "''build''"]
    selection_follows_first_visible [where w = demoWidget and c = 0 and outputChannel = 0
      and m = "demoManager\<lparr>getChannels := [0, 1]\<rparr>" and channelName = "''test''"]
    selection_follows_first_visible [where w = demoWidget and c = 0 and outputChannel = 0
      and m = "demoManager\<lparr>channelAt := (channelAt demoManager)(0 := (channelAt demoManager 0)\<lparr>isVisible := False\<rparr>)\<rparr>"
      and channelName = "''build''"]
    selection_follows_first_visible [where w = demoWidget and c = 0 and outputChannel = 2
      and m = "demoManager\<lparr>channelAt := (channelAt demoManager)(2 := (channelAt demoManager 2)\<lparr>isVisible := False\<rparr>)\<rparr>"
      and channelName = "''test''"]
  by (simp add: demoManager_def demoWidget_def)

end
